theory Spec2Isabelle
  imports Complex_Main "HOL-Library.Sublist"
begin

section \<open>Python values\<close>

text \<open>
  The adapter in \<^verbatim>\<open>gpt_engineer/core/gemini_ai.py\<close> inspects the run-time type of
  message contents (\<^verbatim>\<open>isinstance(content, str)\<close>, \<^verbatim>\<open>dict\<close>, \<^verbatim>\<open>list\<close>), so contents are
  modelled as a datatype of Python values. Text is a \<^typ>\<open>string\<close> whose characters stand
  for code points below 256; the same type carries byte strings. A \<^verbatim>\<open>dict\<close>
  is an association list with string keys (pairwise distinct), read with \<^const>\<open>map_of\<close>.
\<close>

datatype pyval =
    PNone
  | PBool bool
  | PInt int
  | PStr string
  | PBytes string
  | PList "pyval list"
  | PDict "(string \<times> pyval) list"

text \<open>The exceptions that escape a function of the adapter.\<close>

datatype py_exception = TypeError | AttributeError | IndexError

datatype model = text_model | vision_model | multimodal_model

datatype message =
    SystemMessage (content: pyval)
  | HumanMessage (content: pyval)
  | AIMessage (content: pyval)

text \<open>An entry of the translated conversation, \<^verbatim>\<open>{"role": ..., "parts": [...]}\<close>.\<close>

record gemini_message =
  role :: string
  parts :: "pyval list"

text \<open>The attributes of a \<^verbatim>\<open>GeminiAI\<close> instance that its methods read.\<close>

record gemini_ai =
  model_name :: string
  temperature :: real
  streaming :: bool
  enable_image_generation :: bool
  enable_video_generation :: bool
  enable_multimodal :: bool

section \<open>The world outside the adapter\<close>

text \<open>
  Everything the adapter obtains from libraries and from the outside is a field of the
  environment, so that every theorem holds for all of its possible behaviours:
  \<^item> \<open>http_get url\<close>: \<^verbatim>\<open>requests.get(url)\<close> followed by \<^verbatim>\<open>raise_for_status()\<close>; the body
    of the response, or \<open>None\<close> when either raises;
  \<^item> \<open>read_file p\<close>: \<^verbatim>\<open>Path(p).exists()\<close> and then \<^verbatim>\<open>open(p, "rb").read()\<close>; \<open>None\<close> when the
    path does not exist or any step raises;
  \<^item> \<open>path_str p\<close> and \<open>path_suffix p\<close>: \<^verbatim>\<open>str(Path(p))\<close> and \<^verbatim>\<open>Path(p).suffix\<close> of pathlib,
    which depend on the platform;
  \<^item> \<open>py_repr v\<close>: \<^verbatim>\<open>str(v)\<close> for a value that is not a string, \<^verbatim>\<open>None\<close> or a boolean;
  \<^item> \<open>generate_content m msgs t n\<close>: the provider call
    \<^verbatim>\<open>m.generate_content(msgs, GenerationConfig(temperature=t, max_output_tokens=n))\<close>
    followed by \<^verbatim>\<open>response.text\<close>; \<open>Inl msg\<close> when an exception \<open>e\<close> with \<^verbatim>\<open>str(e) = msg\<close> is
    raised, \<open>Inr text\<close> otherwise;
  \<^item> \<open>num_tokens\<close> and \<open>num_tokens_from_messages\<close>: the token counters of the usage log.
\<close>

record env =
  http_get :: "pyval \<Rightarrow> string option"
  read_file :: "string \<Rightarrow> string option"
  path_str :: "string \<Rightarrow> string"
  path_suffix :: "string \<Rightarrow> string"
  py_repr :: "pyval \<Rightarrow> string"
  generate_content :: "model \<Rightarrow> gemini_message list \<Rightarrow> real \<Rightarrow> nat \<Rightarrow> string + string"
  num_tokens :: "string \<Rightarrow> nat"
  num_tokens_from_messages :: "message list \<Rightarrow> nat"

text \<open>\<^verbatim>\<open>str(v)\<close>, as an f-string applies it to a value.\<close>

definition py_str :: "env \<Rightarrow> pyval \<Rightarrow> string" where
  "py_str e v =
     (case v of
        PStr s \<Rightarrow> s
      | PNone \<Rightarrow> ''None''
      | PBool b \<Rightarrow> (if b then ''True'' else ''False'')
      | _ \<Rightarrow> py_repr e v)"

text \<open>
  \<^verbatim>\<open>for x in v\<close>: a list yields its elements, a string its characters, a byte string its
  bytes, a dict its keys; anything else is not iterable.
\<close>

fun py_iter :: "pyval \<Rightarrow> py_exception + pyval list" where
  "py_iter (PList xs) = Inr xs"
| "py_iter (PStr s) = Inr (map (\<lambda>c. PStr [c]) s)"
| "py_iter (PBytes b) = Inr (map (\<lambda>c. PInt (of_char c)) b)"
| "py_iter (PDict kvs) = Inr (map (\<lambda>kv. PStr (fst kv)) kvs)"
| "py_iter PNone = Inl TypeError"
| "py_iter (PBool b) = Inl TypeError"
| "py_iter (PInt i) = Inl TypeError"

section \<open>Media resolution\<close>

text \<open>
  The three loaders wrap all their work in \<^verbatim>\<open>try ... except Exception\<close> and end in a
  \<^verbatim>\<open>return\<close>, so they are total functions. \<^verbatim>\<open>_load_image\<close> rebinds \<^verbatim>\<open>image_path\<close> to
  \<^verbatim>\<open>Path(image_path)\<close> before it looks at the file, so the placeholder of a local path
  shows \<open>path_str\<close> of the reference; a reference that is not a string fails in
  \<^verbatim>\<open>startswith\<close> (or in \<^verbatim>\<open>Path(...)\<close> for a video) before the rebinding.
\<close>

definition load_image_from_url :: "env \<Rightarrow> pyval \<Rightarrow> pyval" where
  "load_image_from_url e image_url =
     (case http_get e image_url of
        Some response_content \<Rightarrow>
          PDict [(''mime_type'', PStr ''image/jpeg''), (''data'', PBytes response_content)]
      | None \<Rightarrow> PDict [(''text'', PStr (''[Image URL: '' @ py_str e image_url @ '']''))])"

definition load_image :: "env \<Rightarrow> pyval \<Rightarrow> pyval" where
  "load_image e image_path =
     (case image_path of
        PStr s \<Rightarrow>
          if prefix ''http://'' s \<or> prefix ''https://'' s then load_image_from_url e image_path
          else (case read_file e s of
                  Some image_data \<Rightarrow>
                    PDict [(''mime_type'', PStr (''image/'' @ drop 1 (path_suffix e s))),
                           (''data'', PBytes image_data)]
                | None \<Rightarrow> PDict [(''text'', PStr (''[Image: '' @ path_str e s @ '']''))])
      | _ \<Rightarrow> PDict [(''text'', PStr (''[Image: '' @ py_str e image_path @ '']''))])"

definition load_video :: "env \<Rightarrow> pyval \<Rightarrow> pyval" where
  "load_video e video_path =
     (case video_path of
        PStr s \<Rightarrow>
          (case read_file e s of
             Some video_data \<Rightarrow>
               PDict [(''mime_type'', PStr (''video/'' @ drop 1 (path_suffix e s))),
                      (''data'', PBytes video_data)]
           | None \<Rightarrow> PDict [(''text'', PStr (''[Video: '' @ path_str e s @ '']''))])
      | _ \<Rightarrow> PDict [(''text'', PStr (''[Video: '' @ py_str e video_path @ '']''))])"

section \<open>Content normalizer\<close>

text \<open>
  One iteration of the loop over a list content: the parts it appends. An item that is a
  dict with a \<^verbatim>\<open>"type"\<close> key other than \<^verbatim>\<open>"text"\<close> and \<^verbatim>\<open>"image_url"\<close> matches neither inner
  branch and appends nothing. \<^verbatim>\<open>item.get("image_url", {}).get("url")\<close> raises
  \<^verbatim>\<open>AttributeError\<close> when the value under \<^verbatim>\<open>"image_url"\<close> is not a dict.
\<close>

definition process_item :: "env \<Rightarrow> pyval \<Rightarrow> py_exception + pyval list" where
  "process_item e item =
     (case item of
        PDict d \<Rightarrow>
          (case map_of d ''type'' of
             Some t \<Rightarrow>
               if t = PStr ''text''
               then Inr [case map_of d ''text'' of Some v \<Rightarrow> v | None \<Rightarrow> PStr []]
               else if t = PStr ''image_url''
               then (case (case map_of d ''image_url'' of Some v \<Rightarrow> v | None \<Rightarrow> PDict []) of
                       PDict u \<Rightarrow>
                         Inr [load_image_from_url e
                                (case map_of u ''url'' of Some v \<Rightarrow> v | None \<Rightarrow> PNone)]
                     | _ \<Rightarrow> Inl AttributeError)
               else Inr []
           | None \<Rightarrow> Inr [PStr (py_str e item)])
      | _ \<Rightarrow> Inr [PStr (py_str e item)])"

fun process_items :: "env \<Rightarrow> pyval list \<Rightarrow> py_exception + pyval list" where
  "process_items e [] = Inr []"
| "process_items e (item # items) =
     (case process_item e item of
        Inl x \<Rightarrow> Inl x
      | Inr ps \<Rightarrow>
          (case process_items e items of
             Inl x \<Rightarrow> Inl x
           | Inr rest \<Rightarrow> Inr (ps @ rest)))"

text \<open>
  \<^verbatim>\<open>for ref in content[key]: parts.append(load(ref))\<close>, guarded by \<^verbatim>\<open>key in content\<close>.
\<close>

definition load_all :: "(pyval \<Rightarrow> pyval) \<Rightarrow> pyval option \<Rightarrow> py_exception + pyval list" where
  "load_all load field =
     (case field of
        None \<Rightarrow> Inr []
      | Some refs \<Rightarrow>
          (case py_iter refs of
             Inl x \<Rightarrow> Inl x
           | Inr rs \<Rightarrow> Inr (map load rs)))"

definition process_multimodal_content :: "env \<Rightarrow> pyval \<Rightarrow> py_exception + pyval" where
  "process_multimodal_content e c =
     (case c of
        PStr s \<Rightarrow> Inr c
      | PDict d \<Rightarrow>
          (case load_all (load_image e) (map_of d ''images'') of
             Inl x \<Rightarrow> Inl x
           | Inr images \<Rightarrow>
               (case load_all (load_video e) (map_of d ''videos'') of
                  Inl x \<Rightarrow> Inl x
                | Inr videos \<Rightarrow>
                    (let ps = (case map_of d ''text'' of Some t \<Rightarrow> [t] | None \<Rightarrow> [])
                                @ images @ videos
                     in Inr (if ps \<noteq> [] then PList ps else c))))
      | PList items \<Rightarrow>
          (case process_items e items of
             Inl x \<Rightarrow> Inl x
           | Inr ps \<Rightarrow> Inr (PList ps))
      | _ \<Rightarrow> Inr (PStr (py_str e c)))"

section \<open>Conversation translator\<close>

text \<open>The main pass: System turns are skipped, User turns normalised, Assistant turns kept.\<close>

fun convert_loop :: "env \<Rightarrow> message list \<Rightarrow> py_exception + gemini_message list" where
  "convert_loop e [] = Inr []"
| "convert_loop e (SystemMessage c # ms) = convert_loop e ms"
| "convert_loop e (HumanMessage c # ms) =
     (case process_multimodal_content e c of
        Inl x \<Rightarrow> Inl x
      | Inr c' \<Rightarrow>
          (case convert_loop e ms of
             Inl x \<Rightarrow> Inl x
           | Inr rest \<Rightarrow>
               Inr (\<lparr>role = ''user'', parts = (case c' of PList ps \<Rightarrow> ps | _ \<Rightarrow> [c'])\<rparr> # rest)))"
| "convert_loop e (AIMessage c # ms) =
     (case convert_loop e ms of
        Inl x \<Rightarrow> Inl x
      | Inr rest \<Rightarrow> Inr (\<lparr>role = ''model'', parts = [c]\<rparr> # rest))"

fun is_system :: "message \<Rightarrow> bool" where
  "is_system (SystemMessage c) = True"
| "is_system (HumanMessage c) = False"
| "is_system (AIMessage c) = False"

fun is_human :: "message \<Rightarrow> bool" where
  "is_human (SystemMessage c) = False"
| "is_human (HumanMessage c) = True"
| "is_human (AIMessage c) = False"

text \<open>
  The second pass on the first entry with role \<^verbatim>\<open>"user"\<close>: \<^verbatim>\<open>parts[0]\<close> raises \<^verbatim>\<open>IndexError\<close>
  on an empty part list, and only a first part that is a string is rewritten.
\<close>

fun prepend_system :: "string \<Rightarrow> gemini_message list \<Rightarrow> py_exception + gemini_message list" where
  "prepend_system system_content [] = Inr []"
| "prepend_system system_content (g # gs) =
     (if role g = ''user''
      then (case parts g of
              [] \<Rightarrow> Inl IndexError
            | p # ps \<Rightarrow>
                (case p of
                   PStr t \<Rightarrow> Inr (g\<lparr>parts := PStr (system_content @ t) # ps\<rparr> # gs)
                 | _ \<Rightarrow> Inr (g # gs)))
      else (case prepend_system system_content gs of
              Inl x \<Rightarrow> Inl x
            | Inr gs' \<Rightarrow> Inr (g # gs')))"

definition convert_messages_to_gemini ::
  "env \<Rightarrow> message list \<Rightarrow> py_exception + gemini_message list" where
  "convert_messages_to_gemini e messages =
     (case convert_loop e messages of
        Inl x \<Rightarrow> Inl x
      | Inr gemini_messages \<Rightarrow>
          (case find is_system messages of
             Some system_msg \<Rightarrow>
               if gemini_messages \<noteq> []
               then prepend_system
                      (''System: '' @ py_str e (content system_msg) @ ''\<newline>\<newline>User: '')
                      gemini_messages
               else Inr gemini_messages
           | None \<Rightarrow> Inr gemini_messages))"

section \<open>Model selector\<close>

definition visual_item :: "pyval \<Rightarrow> bool" where
  "visual_item item =
     (case item of
        PDict d \<Rightarrow>
          (case map_of d ''type'' of
             Some t \<Rightarrow> t \<in> set [PStr ''image_url'', PStr ''image'', PStr ''video'']
           | None \<Rightarrow> False)
      | _ \<Rightarrow> False)"

definition contains_visual_content :: "pyval \<Rightarrow> bool" where
  "contains_visual_content c =
     (case c of
        PDict d \<Rightarrow> map_of d ''images'' \<noteq> None \<or> map_of d ''videos'' \<noteq> None
      | PList items \<Rightarrow> list_ex visual_item items
      | _ \<Rightarrow> False)"

fun is_dict_or_list :: "pyval \<Rightarrow> bool" where
  "is_dict_or_list (PDict d) = True"
| "is_dict_or_list (PList xs) = True"
| "is_dict_or_list v = False"

definition select_model :: "gemini_ai \<Rightarrow> message list \<Rightarrow> model" where
  "select_model self messages =
     (let has_images =
            list_ex (\<lambda>msg. is_dict_or_list (content msg) \<and> contains_visual_content (content msg))
              messages
      in if has_images \<or> enable_multimodal self
         then (if sublist ''1.5'' (model_name self) then multimodal_model else vision_model)
         else text_model)"

section \<open>Secondary-asset trigger\<close>

text \<open>
  \<^verbatim>\<open>str.lower()\<close> on code points below 256: the letters A-Z and the Latin-1 capitals
  (192-222 without the multiplication sign 215) move up by 32.
\<close>

definition lower_char :: "char \<Rightarrow> char" where
  "lower_char c =
     (let n = (of_char c :: nat)
      in if (65 \<le> n \<and> n \<le> 90) \<or> (192 \<le> n \<and> n \<le> 222 \<and> n \<noteq> 215)
         then char_of (n + 32) else c)"

definition lower :: "string \<Rightarrow> string" where
  "lower s = map lower_char s"

definition image_keywords :: "string list" where
  "image_keywords =
     [''generate image'', ''create image'', ''make image'', ''draw'',
      ''visualize'', ''diagram'', ''chart'', ''graph'', ''mockup'',
      ''ui design'', ''logo'', ''icon'', ''illustration'']"

definition video_keywords :: "string list" where
  "video_keywords =
     [''generate video'', ''create video'', ''make video'', ''animation'',
      ''demo video'', ''tutorial video'', ''walkthrough'', ''presentation'']"

text \<open>\<^verbatim>\<open>keyword in response.lower()\<close> is \<^term>\<open>sublist keyword (lower response)\<close>.\<close>

definition should_generate_images :: "string \<Rightarrow> bool" where
  "should_generate_images response =
     list_ex (\<lambda>keyword. sublist keyword (lower response)) image_keywords"

definition should_generate_videos :: "string \<Rightarrow> bool" where
  "should_generate_videos response =
     list_ex (\<lambda>keyword. sublist keyword (lower response)) video_keywords"

text \<open>
  Both asset subroutines are placeholders: they create the output directory and return
  the empty list on the normal path and in the exception handler alike.
\<close>

definition generate_images_from_response :: "string \<Rightarrow> string \<Rightarrow> string list" where
  "generate_images_from_response response step_name = []"

definition generate_videos_from_response :: "string \<Rightarrow> string \<Rightarrow> string list" where
  "generate_videos_from_response response step_name = []"

text \<open>
  \<^verbatim>\<open>_handle_generation_requests\<close> reaches the subroutines through \<^verbatim>\<open>self\<close>, so its body is
  first written for arbitrary subroutines \<open>gen_images\<close> and \<open>gen_videos\<close>; the method of the
  class is the instance with the two placeholders.
\<close>

definition handle_generation_requests_with ::
  "(string \<Rightarrow> string \<Rightarrow> string list) \<Rightarrow> (string \<Rightarrow> string \<Rightarrow> string list) \<Rightarrow>
   gemini_ai \<Rightarrow> string \<Rightarrow> string \<Rightarrow> string" where
  "handle_generation_requests_with gen_images gen_videos self response step_name =
     (let enhanced_response = response;
          enhanced_response =
            (if enable_image_generation self \<and> should_generate_images response
             then (let generated_images = gen_images response step_name
                   in if generated_images \<noteq> []
                      then foldl (\<lambda>acc img_path. acc @ ''![Generated Image]('' @ img_path @ '')\<newline>'')
                             (enhanced_response @ ''\<newline>\<newline>## Generated Images\<newline>'')
                             generated_images
                      else enhanced_response)
             else enhanced_response);
          enhanced_response =
            (if enable_video_generation self \<and> should_generate_videos response
             then (let generated_videos = gen_videos response step_name
                   in if generated_videos \<noteq> []
                      then foldl (\<lambda>acc video_path. acc @ ''[Generated Video]('' @ video_path @ '')\<newline>'')
                             (enhanced_response @ ''\<newline>\<newline>## Generated Videos\<newline>'')
                             generated_videos
                      else enhanced_response)
             else enhanced_response)
      in enhanced_response)"

definition handle_generation_requests :: "gemini_ai \<Rightarrow> string \<Rightarrow> string \<Rightarrow> string" where
  "handle_generation_requests =
     handle_generation_requests_with generate_images_from_response generate_videos_from_response"

section \<open>Usage accounting\<close>

text \<open>
  Modelled from the spec: \<^verbatim>\<open>TokenUsageLog\<close> of \<^verbatim>\<open>gpt_engineer/core/token_usage.py\<close> is not
  among the sources. The ledger "appends one entry per invocation with the step label and
  token counts, and exposes a running total"; an entry holds the "step label, input token
  count, output token count, cumulative totals for the session".
\<close>

record usage_record =
  step_label :: string
  input_tokens :: nat
  output_tokens :: nat
  total_input_tokens :: nat
  total_output_tokens :: nat

type_synonym token_usage_log = "usage_record list"

definition update_log ::
  "env \<Rightarrow> token_usage_log \<Rightarrow> message list \<Rightarrow> string \<Rightarrow> string \<Rightarrow> token_usage_log" where
  "update_log e usage messages answer step =
     (let prompt_tokens = num_tokens_from_messages e messages;
          completion_tokens = num_tokens e answer
      in usage @
         [\<lparr>step_label = step,
           input_tokens = prompt_tokens,
           output_tokens = completion_tokens,
           total_input_tokens = sum_list (map input_tokens usage) + prompt_tokens,
           total_output_tokens = sum_list (map output_tokens usage) + completion_tokens\<rparr>])"

section \<open>Generation invoker\<close>

text \<open>
  \<^verbatim>\<open>GeminiAI.next\<close>. The result pairs what the call returns or raises with the usage log
  after the call. The conversion and the model selection stand before the \<^verbatim>\<open>try\<close>, so an
  exception of the conversion propagates; everything raised inside the \<^verbatim>\<open>try\<close> comes from
  the provider call and ends in the fallback turn.
\<close>

definition with_prompt :: "message list \<Rightarrow> string option \<Rightarrow> message list" where
  "with_prompt messages prompt =
     (case prompt of
        Some p \<Rightarrow> if p \<noteq> [] then messages @ [HumanMessage (PStr p)] else messages
      | None \<Rightarrow> messages)"

definition gemini_next ::
  "env \<Rightarrow> gemini_ai \<Rightarrow> token_usage_log \<Rightarrow> message list \<Rightarrow> string option \<Rightarrow> string \<Rightarrow>
   (py_exception + message list) \<times> token_usage_log" where
  "gemini_next e self usage messages prompt step_name =
     (let messages = with_prompt messages prompt
      in case convert_messages_to_gemini e messages of
           Inl x \<Rightarrow> (Inl x, usage)
         | Inr gemini_messages \<Rightarrow>
             (let m = select_model self messages
              in case generate_content e m gemini_messages (temperature self) 4096 of
                   Inr response_content \<Rightarrow>
                     (let enhanced_response =
                            handle_generation_requests self response_content step_name;
                          usage = update_log e usage messages enhanced_response step_name
                      in (Inr (messages @ [AIMessage (PStr enhanced_response)]), usage))
                 | Inl err \<Rightarrow>
                     (let fallback_response =
                            ''Error with Gemini API: '' @ err @ ''. Please try again.''
                      in (Inr (messages @ [AIMessage (PStr fallback_response)]), usage))))"

definition start ::
  "env \<Rightarrow> gemini_ai \<Rightarrow> token_usage_log \<Rightarrow> string \<Rightarrow> pyval \<Rightarrow> string \<Rightarrow>
   (py_exception + message list) \<times> token_usage_log" where
  "start e self usage system user step_name =
     gemini_next e self usage [SystemMessage (PStr system), HumanMessage user] None step_name"

section \<open>Sample configurations\<close>

text \<open>
  A world without network and without files, in which pathlib leaves a path as written;
  the provider is a parameter. An adapter instance with both generation flags on.
\<close>

definition sample_env ::
  "(model \<Rightarrow> gemini_message list \<Rightarrow> real \<Rightarrow> nat \<Rightarrow> string + string) \<Rightarrow> env" where
  "sample_env provider =
     \<lparr>http_get = (\<lambda>url. None),
      read_file = (\<lambda>p. None),
      path_str = (\<lambda>p. p),
      path_suffix = (\<lambda>p. []),
      py_repr = (\<lambda>v. ''<object>''),
      generate_content = provider,
      num_tokens = length,
      num_tokens_from_messages = length\<rparr>"

definition unavailable :: "model \<Rightarrow> gemini_message list \<Rightarrow> real \<Rightarrow> nat \<Rightarrow> string + string" where
  "unavailable m msgs t n = Inl ''model unavailable''"

definition answering :: "string \<Rightarrow> model \<Rightarrow> gemini_message list \<Rightarrow> real \<Rightarrow> nat \<Rightarrow> string + string" where
  "answering reply m msgs t n = Inr reply"

definition sample_ai :: "string \<Rightarrow> bool \<Rightarrow> gemini_ai" where
  "sample_ai name multimodal =
     \<lparr>model_name = name, temperature = 0.1, streaming = True,
      enable_image_generation = True, enable_video_generation = True,
      enable_multimodal = multimodal\<rparr>"

section \<open>Auxiliary facts\<close>

lemma foldl_append_acc:
  "foldl (\<lambda>acc p. acc @ f p) a ps = a @ concat (map f ps)"
  by (induction ps arbitrary: a) simp_all

text \<open>The two trigger tests are case-insensitive containment of a phrase of the fixed sets.\<close>

lemma should_generate_images_iff:
  "should_generate_images response \<longleftrightarrow>
     (\<exists>keyword \<in> set image_keywords. \<exists>pre post. lower response = pre @ keyword @ post)"
  by (auto simp: should_generate_images_def list_ex_iff sublist_def)

lemma should_generate_videos_iff:
  "should_generate_videos response \<longleftrightarrow>
     (\<exists>keyword \<in> set video_keywords. \<exists>pre post. lower response = pre @ keyword @ post)"
  by (auto simp: should_generate_videos_def list_ex_iff sublist_def)

lemma visual_item_iff:
  "visual_item item \<longleftrightarrow>
     (\<exists>d t. item = PDict d \<and> map_of d ''type'' = Some (PStr t)
            \<and> t \<in> {''image_url'', ''image'', ''video''})"
  by (auto simp: visual_item_def split: pyval.splits option.splits)

lemma contains_visual_content_iff:
  "is_dict_or_list c \<and> contains_visual_content c \<longleftrightarrow>
     (\<exists>d. c = PDict d \<and> (''images'' \<in> fst ` set d \<or> ''videos'' \<in> fst ` set d))
     \<or> (\<exists>items. c = PList items \<and> (\<exists>item \<in> set items. visual_item item))"
  by (cases c) (auto simp: contains_visual_content_def list_ex_iff map_of_eq_None_iff)

lemma process_items_append:
  "process_items e (xs @ ys) =
     (case process_items e xs of
        Inl x \<Rightarrow> Inl x
      | Inr ps \<Rightarrow> (case process_items e ys of Inl x \<Rightarrow> Inl x | Inr qs \<Rightarrow> Inr (ps @ qs)))"
  by (induction xs) (auto split: sum.splits)

lemma with_prompt_prefix: "prefix messages (with_prompt messages prompt)"
  by (simp add: with_prompt_def split: option.splits)

text \<open>Facts about the two passes of the translator.\<close>

lemma convert_loop_roles:
  "convert_loop e ms = Inr out \<Longrightarrow> g \<in> set out \<Longrightarrow> role g = ''user'' \<or> role g = ''model''"
proof (induction e ms arbitrary: out rule: convert_loop.induct)
  case (1 e)
  then show ?case by simp
next
  case (2 e c ms)
  then show ?case by simp
next
  case (3 e c ms)
  from "3.prems"(1) obtain c' rest where
    "process_multimodal_content e c = Inr c'" "convert_loop e ms = Inr rest"
    "out = \<lparr>role = ''user'', parts = (case c' of PList ps \<Rightarrow> ps | _ \<Rightarrow> [c'])\<rparr> # rest"
    by (auto split: sum.splits)
  with "3.IH" "3.prems"(2) show ?case by auto
next
  case (4 e c ms)
  from "4.prems"(1) obtain rest where
    "convert_loop e ms = Inr rest" "out = \<lparr>role = ''model'', parts = [c]\<rparr> # rest"
    by (auto split: sum.splits)
  with "4.IH" "4.prems"(2) show ?case by auto
qed

lemma prepend_system_split:
  assumes "\<forall>g \<in> set pre. role g \<noteq> ''user''" and "role u = ''user''"
  shows "prepend_system sc (pre @ u # post) =
           (case parts u of
              [] \<Rightarrow> Inl IndexError
            | p # ps \<Rightarrow>
                (case p of
                   PStr t \<Rightarrow> Inr (pre @ u\<lparr>parts := PStr (sc @ t) # ps\<rparr> # post)
                 | _ \<Rightarrow> Inr (pre @ u # post)))"
  using assms
proof (induction pre)
  case Nil
  then show ?case by (simp split: list.splits pyval.splits)
next
  case (Cons g pre)
  then show ?case by (simp split: list.splits pyval.splits)
qed

lemma convert_loop_first_user:
  assumes "convert_loop e ms = Inr plain" and "find is_human ms = Some (HumanMessage c)"
  shows "\<exists>pre u post c'. plain = pre @ u # post \<and> (\<forall>g \<in> set pre. role g = ''model'')
           \<and> role u = ''user'' \<and> process_multimodal_content e c = Inr c'
           \<and> parts u = (case c' of PList ps \<Rightarrow> ps | _ \<Rightarrow> [c'])"
  using assms
proof (induction e ms arbitrary: plain rule: convert_loop.induct)
  case (1 e)
  then show ?case by simp
next
  case (2 e d ms)
  then show ?case by simp
next
  case (3 e d ms)
  from "3.prems" obtain c' rest where
    c': "process_multimodal_content e d = Inr c'" and
    plain: "plain = \<lparr>role = ''user'', parts = (case c' of PList ps \<Rightarrow> ps | _ \<Rightarrow> [c'])\<rparr> # rest"
    by (auto split: sum.splits)
  from "3.prems" have "d = c" by simp
  with c' plain show ?case
    by (intro exI[of _ "[]"] exI[of _ "\<lparr>role = ''user'', parts = (case c' of PList ps \<Rightarrow> ps | _ \<Rightarrow> [c'])\<rparr>"]
          exI[of _ rest] exI[of _ c']) simp
next
  case (4 e d ms)
  from "4.prems" obtain rest where
    rest: "convert_loop e ms = Inr rest" and plain: "plain = \<lparr>role = ''model'', parts = [d]\<rparr> # rest"
    by (auto split: sum.splits)
  from "4.prems" have f: "find is_human ms = Some (HumanMessage c)" by simp
  from "4.IH"[OF rest f] obtain pre u post c' where
    h: "rest = pre @ u # post" "\<forall>g \<in> set pre. role g = ''model''" "role u = ''user''"
       "process_multimodal_content e c = Inr c'" "parts u = (case c' of PList ps \<Rightarrow> ps | _ \<Rightarrow> [c'])"
    by blast
  show ?case
    using h plain
    by (intro exI[of _ "\<lparr>role = ''model'', parts = [d]\<rparr> # pre"] exI[of _ u] exI[of _ post] exI[of _ c']) simp
qed

lemma find_of_filter: "filter P xs = [x] \<Longrightarrow> find P xs = Some x"
  by (induction xs) (auto split: if_splits)

lemma convert_loop_returns_iff:
  "(\<exists>plain. convert_loop e ms = Inr plain) \<longleftrightarrow>
     (\<forall>m \<in> set ms. is_human m \<longrightarrow> (\<exists>c'. process_multimodal_content e (content m) = Inr c'))"
  by (induction e ms rule: convert_loop.induct) (auto split: sum.splits)

section \<open>Generation invoker: provider failure\<close>

text \<open>
  Claim C1. Whenever the provider invocation fails, \<^verbatim>\<open>GeminiAI.next\<close> does not raise: it
  returns the conversation (the given turns, followed by the prompt turn when a non-empty
  prompt was passed) extended by exactly one Assistant turn. The text of that turn embeds
  the error message and contains the substring "Error"; the given turns stand unchanged at
  the front of the result, and without a prompt the result is the given conversation plus
  the one Assistant turn. The provider invocation is the call of the selected model on the
  translated conversation.
\<close>

theorem next_provider_failure_appends_fallback:
  assumes "convert_messages_to_gemini e (with_prompt messages prompt) = Inr gm"
      and "generate_content e (select_model self (with_prompt messages prompt)) gm
             (temperature self) 4096 = Inl err"
  shows "\<exists>out txt.
           fst (gemini_next e self usage messages prompt step_name) = Inr out
         \<and> out = with_prompt messages prompt @ [AIMessage (PStr txt)]
         \<and> sublist ''Error'' txt \<and> sublist err txt
         \<and> take (length messages) out = messages
         \<and> ((prompt = None \<or> prompt = Some []) \<longrightarrow> out = messages @ [AIMessage (PStr txt)])"
proof -
  let ?txt = "''Error with Gemini API: '' @ err @ ''. Please try again.''"
  let ?out = "with_prompt messages prompt @ [AIMessage (PStr ?txt)]"
  have r: "fst (gemini_next e self usage messages prompt step_name) = Inr ?out"
    using assms by (simp add: gemini_next_def Let_def)
  have e1: "sublist ''Error'' ?txt"
    by (rule prefix_imp_sublist) simp
  have e2: "sublist err ?txt"
    unfolding sublist_def by blast
  have t: "take (length messages) ?out = messages"
    using with_prompt_prefix[of messages prompt] by (auto simp: prefix_def)
  have p: "(prompt = None \<or> prompt = Some []) \<longrightarrow> ?out = messages @ [AIMessage (PStr ?txt)]"
    by (auto simp: with_prompt_def)
  from r e1 e2 t p show ?thesis by blast
qed

text \<open>
  The end-to-end scenario of the specification: System and User turn, model unavailable;
  the result has three turns and the third is an Assistant turn.
\<close>

theorem next_provider_failure_witness:
  "convert_messages_to_gemini (sample_env unavailable)
      [SystemMessage (PStr ''You write code''), HumanMessage (PStr ''Create a calculator'')]
     = Inr [\<lparr>role = ''user'',
             parts = [PStr ''System: You write code\<newline>\<newline>User: Create a calculator'']\<rparr>]
   \<and> (\<exists>txt. fst (start (sample_env unavailable) (sample_ai ''gemini-1.5-pro'' True) []
                   ''You write code'' (PStr ''Create a calculator'') ''generate'')
              = Inr [SystemMessage (PStr ''You write code''),
                     HumanMessage (PStr ''Create a calculator''),
                     AIMessage (PStr txt)]
            \<and> sublist ''Error'' txt)"
proof -
  let ?e = "sample_env unavailable"
  let ?ms = "[SystemMessage (PStr ''You write code''), HumanMessage (PStr ''Create a calculator'')]"
  let ?gm = "[\<lparr>role = ''user'',
               parts = [PStr ''System: You write code\<newline>\<newline>User: Create a calculator'']\<rparr>]"
  have c: "convert_messages_to_gemini ?e ?ms = Inr ?gm"
    by (simp add: convert_messages_to_gemini_def process_multimodal_content_def py_str_def)
  then have c': "convert_messages_to_gemini ?e (with_prompt ?ms None) = Inr ?gm"
    by (simp add: with_prompt_def)
  have g: "generate_content ?e (select_model (sample_ai ''gemini-1.5-pro'' True) (with_prompt ?ms None))
             ?gm (temperature (sample_ai ''gemini-1.5-pro'' True)) 4096 = Inl ''model unavailable''"
    by (simp add: sample_env_def unavailable_def)
  from next_provider_failure_appends_fallback[OF c' g, of "[]" "''generate''"]
  obtain reply where
    "fst (gemini_next ?e (sample_ai ''gemini-1.5-pro'' True) [] ?ms None ''generate'')
       = Inr (?ms @ [AIMessage (PStr reply)])" and "sublist ''Error'' reply"
    by (auto simp: with_prompt_def)
  then have "\<exists>txt. fst (start ?e (sample_ai ''gemini-1.5-pro'' True) []
                   ''You write code'' (PStr ''Create a calculator'') ''generate'')
              = Inr [SystemMessage (PStr ''You write code''),
                     HumanMessage (PStr ''Create a calculator''),
                     AIMessage (PStr txt)]
            \<and> sublist ''Error'' txt"
    by (auto simp: start_def)
  with c show ?thesis by blast
qed

section \<open>Conversation translator: folding the System turn\<close>

text \<open>
  For a conversation with exactly one System turn, of content \<open>S\<close>, and a first User turn of
  content \<open>c\<close>: when the translation returns, and what it returns then.
\<close>

lemma translate_returns_and_shape:
  assumes one: "filter is_system messages = [SystemMessage S]"
      and first: "find is_human messages = Some (HumanMessage c)"
  shows "((\<exists>out. convert_messages_to_gemini e messages = Inr out) \<longleftrightarrow>
            (\<forall>m \<in> set messages. is_human m \<longrightarrow>
               (\<exists>c'. process_multimodal_content e (content m) = Inr c'))
            \<and> process_multimodal_content e c \<noteq> Inr (PList []))
       \<and> (\<forall>out. convert_messages_to_gemini e messages = Inr out \<longrightarrow>
            (\<forall>g \<in> set out. role g = ''user'' \<or> role g = ''model'')
          \<and> (\<exists>pre u post c'.
                convert_loop e messages = Inr (pre @ u # post)
              \<and> (\<forall>g \<in> set pre. role g = ''model'') \<and> role u = ''user''
              \<and> process_multimodal_content e c = Inr c'
              \<and> parts u = (case c' of PList ps \<Rightarrow> ps | _ \<Rightarrow> [c'])
              \<and> out = pre @ (case parts u of
                               PStr t # rest \<Rightarrow>
                                 u\<lparr>parts := PStr (''System: '' @ py_str e S @ ''\<newline>\<newline>User: '' @ t) # rest\<rparr>
                             | _ \<Rightarrow> u) # post))"
proof -
  let ?sc = "''System: '' @ py_str e S @ ''\<newline>\<newline>User: ''"
  have sys: "find is_system messages = Some (SystemMessage S)"
    using one by (rule find_of_filter)
  have shape: "convert_messages_to_gemini e messages =
          (case parts u of
              [] \<Rightarrow> Inl IndexError
            | p # ps \<Rightarrow>
                (case p of
                   PStr t \<Rightarrow> Inr (pre @ u\<lparr>parts := PStr (?sc @ t) # ps\<rparr> # post)
                 | _ \<Rightarrow> Inr (pre @ u # post)))"
    if "convert_loop e messages = Inr (pre @ u # post)" "\<forall>g \<in> set pre. role g = ''model''"
       "role u = ''user''" for pre u post
  proof -
    from that(2) have "\<forall>g \<in> set pre. role g \<noteq> ''user''" by auto
    from prepend_system_split[OF this that(3), of ?sc post] that(1) sys
    show ?thesis by (simp add: convert_messages_to_gemini_def)
  qed
  have fail: "convert_messages_to_gemini e messages = Inl x"
    if "convert_loop e messages = Inl x" for x
    using that by (simp add: convert_messages_to_gemini_def)
  have A: "(\<exists>out. convert_messages_to_gemini e messages = Inr out) \<longleftrightarrow>
            (\<forall>m \<in> set messages. is_human m \<longrightarrow>
               (\<exists>c'. process_multimodal_content e (content m) = Inr c'))
            \<and> process_multimodal_content e c \<noteq> Inr (PList [])"
  proof (cases "convert_loop e messages")
    case (Inl x)
    with fail[OF Inl] convert_loop_returns_iff[of e messages] show ?thesis by auto
  next
    case (Inr plain)
    from convert_loop_first_user[OF Inr first] obtain pre u post c' where
      h: "plain = pre @ u # post" "\<forall>g \<in> set pre. role g = ''model''" "role u = ''user''"
         "process_multimodal_content e c = Inr c'"
         "parts u = (case c' of PList ps \<Rightarrow> ps | _ \<Rightarrow> [c'])"
      by blast
    have all: "\<forall>m \<in> set messages. is_human m \<longrightarrow>
               (\<exists>c'. process_multimodal_content e (content m) = Inr c')"
      using convert_loop_returns_iff[of e messages] Inr by blast
    have "(\<exists>out. convert_messages_to_gemini e messages = Inr out) \<longleftrightarrow> parts u \<noteq> []"
      using shape[OF Inr[unfolded h(1)] h(2) h(3)]
      by (auto split: list.splits pyval.splits)
    also have "\<dots> \<longleftrightarrow> process_multimodal_content e c \<noteq> Inr (PList [])"
      using h(4) h(5) by (auto split: pyval.splits)
    finally show ?thesis using all by blast
  qed
  have B: "(\<forall>g \<in> set out. role g = ''user'' \<or> role g = ''model'')
          \<and> (\<exists>pre u post c'.
                convert_loop e messages = Inr (pre @ u # post)
              \<and> (\<forall>g \<in> set pre. role g = ''model'') \<and> role u = ''user''
              \<and> process_multimodal_content e c = Inr c'
              \<and> parts u = (case c' of PList ps \<Rightarrow> ps | _ \<Rightarrow> [c'])
              \<and> out = pre @ (case parts u of
                               PStr t # rest \<Rightarrow> u\<lparr>parts := PStr (?sc @ t) # rest\<rparr>
                             | _ \<Rightarrow> u) # post)"
    if ret: "convert_messages_to_gemini e messages = Inr out" for out
  proof -
    from ret obtain plain where plain: "convert_loop e messages = Inr plain"
      by (cases "convert_loop e messages") (auto simp: convert_messages_to_gemini_def)
    from convert_loop_first_user[OF plain first] obtain pre u post c' where
      h: "plain = pre @ u # post" "\<forall>g \<in> set pre. role g = ''model''" "role u = ''user''"
         "process_multimodal_content e c = Inr c'"
         "parts u = (case c' of PList ps \<Rightarrow> ps | _ \<Rightarrow> [c'])"
      by blast
    have out: "out = pre @ (case parts u of
                               PStr t # rest \<Rightarrow> u\<lparr>parts := PStr (?sc @ t) # rest\<rparr>
                             | _ \<Rightarrow> u) # post"
      using shape[OF plain[unfolded h(1)] h(2) h(3)] ret
      by (auto split: list.splits pyval.splits)
    have roles_plain: "\<forall>g \<in> set (pre @ u # post). role g = ''user'' \<or> role g = ''model''"
      using convert_loop_roles[OF plain] h(1) by blast
    have roles: "\<forall>g \<in> set out. role g = ''user'' \<or> role g = ''model''"
      unfolding out using roles_plain h(3)
      by (auto split: list.splits pyval.splits)
    from roles plain h out show ?thesis by blast
  qed
  from A B[unfolded append_assoc] show ?thesis by blast
qed

text \<open>
  Claim C2 as stated fails. With a System turn and a User turn whose list content yields
  no part, the translation raises and there is no output; and where the first part of the
  first User turn is a media part followed by a text part, nothing is prepended: the text
  part comes out as it went in and the System text is nowhere in the output.
\<close>

theorem translate_system_fold_counterexample:
  "convert_messages_to_gemini (sample_env unavailable)
     [SystemMessage (PStr ''You write code''),
      HumanMessage (PList [PDict [(''type'', PStr ''image''), (''data'', PStr ''iVBORw0KGgo'')]])]
     = Inl IndexError
   \<and> convert_messages_to_gemini ((sample_env unavailable)\<lparr>http_get := (\<lambda>url. Some ''JFIF'')\<rparr>)
     [SystemMessage (PStr ''You write code''),
      HumanMessage (PList
        [PDict [(''type'', PStr ''image_url''),
                (''image_url'', PDict [(''url'', PStr ''https://example.com/a.png'')])],
         PDict [(''type'', PStr ''text''), (''text'', PStr ''Describe this image'')]])]
     = Inr [\<lparr>role = ''user'',
             parts = [PDict [(''mime_type'', PStr ''image/jpeg''), (''data'', PBytes ''JFIF'')],
                      PStr ''Describe this image'']\<rparr>]"
  by (simp add: convert_messages_to_gemini_def process_multimodal_content_def process_item_def
      load_image_from_url_def sample_env_def)

text \<open>
  Claim C2, amended. Take a conversation with exactly one System turn, of content \<open>S\<close>, and
  at least one User turn, the first of content \<open>c\<close>, in which every User turn normalises
  without raising and the first User turn normalises to at least one part. Then the
  translation returns; every entry of its output has the role \<^verbatim>\<open>"user"\<close> or \<^verbatim>\<open>"model"\<close>, so
  there is no System entry; and the output is the translation of the main pass in which the
  first \<^verbatim>\<open>"user"\<close> entry, the normalised first User turn, has \<^verbatim>\<open>"System: {S}\n\nUser: "\<close>
  prepended to its first part exactly when that first part is text. A first part that is
  not text is left as it is, and then nothing is prepended anywhere.
\<close>

theorem translate_folds_system_turn:
  assumes one: "filter is_system messages = [SystemMessage S]"
      and first: "find is_human messages = Some (HumanMessage c)"
      and normalises: "\<forall>m \<in> set messages. is_human m \<longrightarrow>
                         (\<exists>c'. process_multimodal_content e (content m) = Inr c')"
      and some_part: "process_multimodal_content e c \<noteq> Inr (PList [])"
  shows "\<exists>out pre u post c'.
           convert_messages_to_gemini e messages = Inr out
         \<and> (\<forall>g \<in> set out. role g = ''user'' \<or> role g = ''model'')
         \<and> convert_loop e messages = Inr (pre @ u # post)
         \<and> (\<forall>g \<in> set pre. role g = ''model'') \<and> role u = ''user''
         \<and> process_multimodal_content e c = Inr c'
         \<and> parts u = (case c' of PList ps \<Rightarrow> ps | _ \<Rightarrow> [c'])
         \<and> out = pre @ (case parts u of
                          PStr t # rest \<Rightarrow>
                            u\<lparr>parts := PStr (''System: '' @ py_str e S @ ''\<newline>\<newline>User: '' @ t) # rest\<rparr>
                        | _ \<Rightarrow> u) # post"
proof -
  note rs = translate_returns_and_shape[OF one first, of e]
  from rs normalises some_part obtain out where
    out: "convert_messages_to_gemini e messages = Inr out"
    by blast
  from rs out show ?thesis by blast
qed

theorem translate_folds_system_turn_witness:
  "filter is_system
      [SystemMessage (PStr ''You write code''), HumanMessage (PStr ''Create a calculator''),
       AIMessage (PStr ''def add(a, b): return a + b''),
       HumanMessage (PList [PDict [(''type'', PStr ''text''), (''text'', PStr ''Add tests'')]])]
     = [SystemMessage (PStr ''You write code'')]
   \<and> find is_human
      [SystemMessage (PStr ''You write code''), HumanMessage (PStr ''Create a calculator''),
       AIMessage (PStr ''def add(a, b): return a + b''),
       HumanMessage (PList [PDict [(''type'', PStr ''text''), (''text'', PStr ''Add tests'')]])]
     = Some (HumanMessage (PStr ''Create a calculator''))
   \<and> process_multimodal_content (sample_env unavailable) (PStr ''Create a calculator'')
     = Inr (PStr ''Create a calculator'')
   \<and> process_multimodal_content (sample_env unavailable)
        (PList [PDict [(''type'', PStr ''text''), (''text'', PStr ''Add tests'')]])
     = Inr (PList [PStr ''Add tests''])
   \<and> convert_messages_to_gemini (sample_env unavailable)
      [SystemMessage (PStr ''You write code''), HumanMessage (PStr ''Create a calculator''),
       AIMessage (PStr ''def add(a, b): return a + b''),
       HumanMessage (PList [PDict [(''type'', PStr ''text''), (''text'', PStr ''Add tests'')]])]
     = Inr [\<lparr>role = ''user'',
             parts = [PStr ''System: You write code\<newline>\<newline>User: Create a calculator'']\<rparr>,
            \<lparr>role = ''model'', parts = [PStr ''def add(a, b): return a + b'']\<rparr>,
            \<lparr>role = ''user'', parts = [PStr ''Add tests'']\<rparr>]"
proof -
  let ?e = "sample_env unavailable"
  let ?ms = "[SystemMessage (PStr ''You write code''), HumanMessage (PStr ''Create a calculator''),
       AIMessage (PStr ''def add(a, b): return a + b''),
       HumanMessage (PList [PDict [(''type'', PStr ''text''), (''text'', PStr ''Add tests'')]])]"
  have f1: "filter is_system ?ms = [SystemMessage (PStr ''You write code'')]" by simp
  have f2: "find is_human ?ms = Some (HumanMessage (PStr ''Create a calculator''))" by simp
  have n1: "process_multimodal_content ?e (PStr ''Create a calculator'')
              = Inr (PStr ''Create a calculator'')"
    by (simp add: process_multimodal_content_def)
  have n2: "process_multimodal_content ?e
              (PList [PDict [(''type'', PStr ''text''), (''text'', PStr ''Add tests'')]])
              = Inr (PList [PStr ''Add tests''])"
    by (simp add: process_multimodal_content_def process_item_def)
  have h3: "\<forall>m \<in> set ?ms. is_human m \<longrightarrow>
              (\<exists>c'. process_multimodal_content ?e (content m) = Inr c')"
    by (simp add: n1 n2)
  have h4: "process_multimodal_content ?e (PStr ''Create a calculator'') \<noteq> Inr (PList [])"
    by (simp add: n1)
  from translate_folds_system_turn[OF f1 f2 h3 h4]
  have "\<exists>out. convert_messages_to_gemini ?e ?ms = Inr out"
    by blast
  moreover have "convert_messages_to_gemini ?e ?ms
     = Inr [\<lparr>role = ''user'',
             parts = [PStr ''System: You write code\<newline>\<newline>User: Create a calculator'']\<rparr>,
            \<lparr>role = ''model'', parts = [PStr ''def add(a, b): return a + b'']\<rparr>,
            \<lparr>role = ''user'', parts = [PStr ''Add tests'']\<rparr>]"
    by (simp add: convert_messages_to_gemini_def n1 n2 py_str_def)
  ultimately show ?thesis using f1 f2 n1 n2 by simp
qed

text \<open>
  In every environment, a first User turn whose list content yields no part makes
  \<^verbatim>\<open>parts[0]\<close> fail once a System turn is present.
\<close>

lemma translate_raises_on_empty_first_user_turn:
  "convert_messages_to_gemini e
     [SystemMessage (PStr ''You write code''),
      HumanMessage (PList [PDict [(''type'', PStr ''image''), (''data'', PStr ''iVBORw0KGgo'')]])]
   = Inl IndexError"
  by (simp add: convert_messages_to_gemini_def process_multimodal_content_def process_item_def)

section \<open>Content normalizer: list contents\<close>

text \<open>
  Claim C3 says that a list content yields one part per item, in order. The loop appends
  nothing for an item that is a dict whose \<^verbatim>\<open>"type"\<close> is neither \<^verbatim>\<open>"text"\<close> nor \<^verbatim>\<open>"image_url"\<close>:
  of the two items below only the text item yields a part, the \<^verbatim>\<open>"image"\<close> item is lost.
\<close>

theorem normalize_drops_other_typed_item:
  "process_multimodal_content e
     (PList [PDict [(''type'', PStr ''text''), (''text'', PStr ''look at this'')],
             PDict [(''type'', PStr ''image''), (''data'', PStr ''iVBORw0KGgo'')]])
   = Inr (PList [PStr ''look at this''])"
  by (simp add: process_multimodal_content_def process_item_def)

text \<open>
  Claim C10. An item of a list content whose \<^verbatim>\<open>"type"\<close> is \<^verbatim>\<open>"text"\<close> and that has no \<^verbatim>\<open>"text"\<close>
  field yields the empty string as its part, and the normalisation does not fail on it:
  between items that normalise to \<open>ps\<close> and \<open>qs\<close> the content normalises to \<open>ps\<close>, the empty
  string, \<open>qs\<close>.
\<close>

theorem text_item_without_text_field_yields_empty:
  assumes "map_of d ''type'' = Some (PStr ''text'')" and "map_of d ''text'' = None"
      and "process_items e before = Inr ps" and "process_items e after = Inr qs"
  shows "process_item e (PDict d) = Inr [PStr []]
       \<and> process_multimodal_content e (PList (before @ PDict d # after))
           = Inr (PList (ps @ PStr [] # qs))"
  using assms by (simp add: process_multimodal_content_def process_items_append process_item_def)

theorem text_item_without_text_field_witness:
  "process_multimodal_content (sample_env unavailable)
     (PList [PDict [(''type'', PStr ''text''), (''text'', PStr ''a'')],
             PDict [(''type'', PStr ''text'')],
             PStr ''b''])
   = Inr (PList [PStr ''a'', PStr [], PStr ''b''])"
  using text_item_without_text_field_yields_empty
          [of "[(''type'', PStr ''text'')]" "sample_env unavailable"
              "[PDict [(''type'', PStr ''text''), (''text'', PStr ''a'')]]" "[PStr ''a'']"
              "[PStr ''b'']" "[PStr ''b'']"]
  by (simp add: process_item_def py_str_def)

section \<open>Media resolution: placeholders\<close>

text \<open>
  Claim C4 as stated fails: a failed fetch gives a placeholder that starts with
  \<^verbatim>\<open>[Image URL: \<close>, not with \<^verbatim>\<open>[Image: \<close>.
\<close>

theorem failed_fetch_placeholder_counterexample:
  "http_get (sample_env unavailable) (PStr ''https://example.com/a.png'') = None
   \<and> load_image_from_url (sample_env unavailable) (PStr ''https://example.com/a.png'')
       = PDict [(''text'', PStr ''[Image URL: https://example.com/a.png]'')]
   \<and> load_image (sample_env unavailable) (PStr ''https://example.com/a.png'')
       \<noteq> PDict [(''text'', PStr ''[Image: https://example.com/a.png]'')]"
  by (simp add: load_image_def load_image_from_url_def sample_env_def py_str_def)

text \<open>
  Claim C4, amended. The loaders never raise (they are total), and for a reference whose
  bytes cannot be read they return a placeholder text part:
  \<^item> \<^verbatim>\<open>_load_image_from_url\<close>, and \<^verbatim>\<open>_load_image\<close> on an http(s) reference, whose fetch fails:
    \<^verbatim>\<open>[Image URL: <reference>]\<close> with the literal reference;
  \<^item> \<^verbatim>\<open>_load_image\<close> on a local path that cannot be read: \<^verbatim>\<open>[Image: <p>]\<close>;
  \<^item> \<^verbatim>\<open>_load_video\<close> on a path that cannot be read: \<^verbatim>\<open>[Video: <p>]\<close>;
  where \<^verbatim>\<open><p>\<close> is the path as pathlib prints it.
\<close>

theorem unreadable_media_placeholders:
  "(http_get e image_url = None \<longrightarrow>
      load_image_from_url e image_url
        = PDict [(''text'', PStr (''[Image URL: '' @ py_str e image_url @ '']''))])
   \<and> ((prefix ''http://'' s \<or> prefix ''https://'' s) \<and> http_get e (PStr s) = None \<longrightarrow>
      load_image e (PStr s) = PDict [(''text'', PStr (''[Image URL: '' @ s @ '']''))])
   \<and> (\<not> prefix ''http://'' s \<and> \<not> prefix ''https://'' s \<and> read_file e s = None \<longrightarrow>
      load_image e (PStr s) = PDict [(''text'', PStr (''[Image: '' @ path_str e s @ '']''))])
   \<and> (read_file e s = None \<longrightarrow>
      load_video e (PStr s) = PDict [(''text'', PStr (''[Video: '' @ path_str e s @ '']''))])"
  by (simp add: load_image_from_url_def load_image_def load_video_def py_str_def)

theorem unreadable_media_placeholders_witness:
  "load_image_from_url (sample_env unavailable) (PStr ''https://example.com/a.png'')
     = PDict [(''text'', PStr ''[Image URL: https://example.com/a.png]'')]
   \<and> load_image (sample_env unavailable) (PStr ''https://example.com/a.png'')
     = PDict [(''text'', PStr ''[Image URL: https://example.com/a.png]'')]
   \<and> load_image (sample_env unavailable) (PStr ''missing.png'')
     = PDict [(''text'', PStr ''[Image: missing.png]'')]
   \<and> load_video (sample_env unavailable) (PStr ''missing.mp4'')
     = PDict [(''text'', PStr ''[Video: missing.mp4]'')]"
  using unreadable_media_placeholders
          [of "sample_env unavailable" "PStr ''https://example.com/a.png''"
              "''https://example.com/a.png''"]
        unreadable_media_placeholders
          [of "sample_env unavailable" "PStr ''https://example.com/a.png''" "''missing.png''"]
        unreadable_media_placeholders
          [of "sample_env unavailable" "PStr ''https://example.com/a.png''" "''missing.mp4''"]
  by (simp add: sample_env_def py_str_def)

section \<open>Model selector: the selection rule\<close>

text \<open>
  Claim C5. If the content of some turn is a dict with an \<^verbatim>\<open>"images"\<close> or a \<^verbatim>\<open>"videos"\<close> key, or
  a list with an item that is a dict whose \<^verbatim>\<open>"type"\<close> is \<^verbatim>\<open>"image_url"\<close>, \<^verbatim>\<open>"image"\<close> or \<^verbatim>\<open>"video"\<close>,
  or if the multimodal flag is set, the selector returns the multimodal model when the
  model name contains \<^verbatim>\<open>"1.5"\<close> and the vision model otherwise; if neither holds it returns
  the text model.
\<close>

theorem select_model_rule:
  "select_model self messages =
     (if (\<exists>msg \<in> set messages.
            (\<exists>d. content msg = PDict d \<and> (''images'' \<in> fst ` set d \<or> ''videos'' \<in> fst ` set d))
            \<or> (\<exists>items. content msg = PList items
                 \<and> (\<exists>item \<in> set items. \<exists>d t. item = PDict d \<and> map_of d ''type'' = Some (PStr t)
                       \<and> t \<in> {''image_url'', ''image'', ''video''})))
         \<or> enable_multimodal self
      then (if sublist ''1.5'' (model_name self) then multimodal_model else vision_model)
      else text_model)"
  unfolding select_model_def Let_def list_ex_iff contains_visual_content_iff visual_item_iff
  by simp

theorem select_model_rule_witness:
  "select_model (sample_ai ''gemini-1.5-pro'' False)
      [SystemMessage (PStr ''s''), HumanMessage (PDict [(''images'', PList [PStr ''a.png''])])]
     = multimodal_model
   \<and> select_model (sample_ai ''gemini-pro'' False)
      [SystemMessage (PStr ''s''), HumanMessage (PDict [(''images'', PList [PStr ''a.png''])])]
     = vision_model
   \<and> select_model (sample_ai ''gemini-1.5-pro'' False)
      [SystemMessage (PStr ''s''), HumanMessage (PStr ''hello'')]
     = text_model"
proof -
  have a: "sublist ''1.5'' ''gemini-1.5-pro''" by code_simp
  have b: "\<not> sublist ''1.5'' ''gemini-pro''" by code_simp
  show ?thesis
    by (simp add: select_model_rule sample_ai_def a b)
qed

section \<open>Secondary-asset trigger: what is appended\<close>

text \<open>
  Claim C6 as stated fails: with image generation enabled and the trigger phrase "diagram"
  in the text, no section is appended, because the subroutine returned no path.
\<close>

theorem generated_images_section_counterexample:
  "enable_image_generation (sample_ai ''gemini-1.5-pro'' True)
   \<and> sublist ''diagram'' (lower ''Here is a diagram of the architecture'')
   \<and> should_generate_images ''Here is a diagram of the architecture''
   \<and> handle_generation_requests (sample_ai ''gemini-1.5-pro'' True)
        ''Here is a diagram of the architecture'' ''generate''
       = ''Here is a diagram of the architecture''
   \<and> \<not> sublist ''## Generated Images''
         (handle_generation_requests (sample_ai ''gemini-1.5-pro'' True)
            ''Here is a diagram of the architecture'' ''generate'')"
  by code_simp

text \<open>
  Claim C6, amended. When image generation is enabled and the text contains an image
  trigger phrase, the trigger calls the image subroutine and appends the section
  "## Generated Images" with one markdown image reference per returned path if and only
  if the subroutine returned at least one path; with zero paths nothing is appended for
  images. (After that the video trigger may append its own section.) The subroutine of
  the repository always returns zero paths, so \<^verbatim>\<open>_handle_generation_requests\<close> returns the
  text unchanged.
\<close>

theorem generated_images_section_only_with_paths:
  assumes "enable_image_generation self"
      and "\<exists>phrase \<in> set image_keywords. sublist phrase (lower response)"
  shows "handle_generation_requests_with gen_images gen_videos self response step_name =
           response
           @ (if gen_images response step_name = [] then []
              else ''\<newline>\<newline>## Generated Images\<newline>''
                   @ concat (map (\<lambda>img_path. ''![Generated Image]('' @ img_path @ '')\<newline>'')
                               (gen_images response step_name)))
           @ (if enable_video_generation self \<and> should_generate_videos response
                 \<and> gen_videos response step_name \<noteq> []
              then ''\<newline>\<newline>## Generated Videos\<newline>''
                   @ concat (map (\<lambda>video_path. ''[Generated Video]('' @ video_path @ '')\<newline>'')
                               (gen_videos response step_name))
              else [])
       \<and> handle_generation_requests self response step_name = response"
  using assms
  by (simp add: handle_generation_requests_def handle_generation_requests_with_def Let_def
      foldl_append_acc generate_images_from_response_def generate_videos_from_response_def
      should_generate_images_def list_ex_iff)

theorem generated_images_section_witness:
  "enable_image_generation (sample_ai ''gemini-1.5-pro'' True)
   \<and> should_generate_images ''Here is a diagram''
   \<and> handle_generation_requests_with (\<lambda>r s. [''a.png'', ''b.png'']) (\<lambda>r s. [])
        (sample_ai ''gemini-1.5-pro'' True) ''Here is a diagram'' ''generate''
       = ''Here is a diagram\<newline>\<newline>## Generated Images\<newline>![Generated Image](a.png)\<newline>![Generated Image](b.png)\<newline>''
   \<and> handle_generation_requests_with (\<lambda>r s. []) (\<lambda>r s. [])
        (sample_ai ''gemini-1.5-pro'' True) ''Here is a diagram'' ''generate''
       = ''Here is a diagram''"
proof -
  have a: "enable_image_generation (sample_ai ''gemini-1.5-pro'' True)"
    by (simp add: sample_ai_def)
  have b: "should_generate_images ''Here is a diagram''" by code_simp
  then have b': "\<exists>phrase \<in> set image_keywords. sublist phrase (lower ''Here is a diagram'')"
    by (simp add: should_generate_images_def list_ex_iff)
  show ?thesis
    using generated_images_section_only_with_paths
            [OF a b', of "\<lambda>r s. [''a.png'', ''b.png'']" "\<lambda>r s. []" "''generate''"]
          generated_images_section_only_with_paths
            [OF a b', of "\<lambda>r s. []" "\<lambda>r s. []" "''generate''"]
          a b
    by simp
qed

text \<open>
  Claim C7. A response text that contains, case-insensitively, none of the image trigger
  phrases and none of the video trigger phrases is returned unchanged, for every setting of
  the flags (and whatever the subroutines would return).
\<close>

theorem no_trigger_phrase_identity:
  assumes "\<forall>phrase \<in> set image_keywords. \<not> sublist phrase (lower response)"
      and "\<forall>phrase \<in> set video_keywords. \<not> sublist phrase (lower response)"
  shows "handle_generation_requests_with gen_images gen_videos self response step_name = response
       \<and> handle_generation_requests self response step_name = response"
  using assms
  by (simp add: handle_generation_requests_def handle_generation_requests_with_def
      should_generate_images_def should_generate_videos_def list_ex_iff)

theorem no_trigger_phrase_identity_witness:
  "\<not> should_generate_images ''Hello, World'' \<and> \<not> should_generate_videos ''Hello, World''
   \<and> handle_generation_requests_with (\<lambda>r s. [''a.png'']) (\<lambda>r s. [''v.mp4''])
        (sample_ai ''gemini-pro'' True) ''Hello, World'' ''generate'' = ''Hello, World''
   \<and> handle_generation_requests (sample_ai ''gemini-pro'' True) ''Hello, World'' ''generate''
       = ''Hello, World''"
proof -
  have i: "\<not> should_generate_images ''Hello, World''" by code_simp
  have v: "\<not> should_generate_videos ''Hello, World''" by code_simp
  have i': "\<forall>phrase \<in> set image_keywords. \<not> sublist phrase (lower ''Hello, World'')"
    using i by (simp add: should_generate_images_def list_ex_iff)
  have v': "\<forall>phrase \<in> set video_keywords. \<not> sublist phrase (lower ''Hello, World'')"
    using v by (simp add: should_generate_videos_def list_ex_iff)
  show ?thesis
    using no_trigger_phrase_identity[OF i' v'] i v by simp
qed

text \<open>
  Claim C9. The text returned by the trigger always has the response text as a prefix:
  augmentation only appends.
\<close>

theorem augmentation_only_appends:
  "prefix response
     (handle_generation_requests_with gen_images gen_videos self response step_name)
   \<and> prefix response (handle_generation_requests self response step_name)"
  by (simp add: handle_generation_requests_def handle_generation_requests_with_def Let_def
      foldl_append_acc)

section \<open>Usage accounting and the invoker\<close>

text \<open>
  Claim C8. When the provider call fails, \<^verbatim>\<open>GeminiAI.next\<close> leaves the usage log as it was;
  the log changes only on the success path, where it becomes the log updated with the
  conversation, the (possibly extended) response text and the step label.
\<close>

theorem usage_unchanged_on_provider_failure:
  "(\<forall>gm err.
      convert_messages_to_gemini e (with_prompt messages prompt) = Inr gm \<and>
      generate_content e (select_model self (with_prompt messages prompt)) gm
        (temperature self) 4096 = Inl err
      \<longrightarrow> snd (gemini_next e self usage messages prompt step_name) = usage)
   \<and> (snd (gemini_next e self usage messages prompt step_name) \<noteq> usage \<longrightarrow>
        (\<exists>gm txt.
           convert_messages_to_gemini e (with_prompt messages prompt) = Inr gm \<and>
           generate_content e (select_model self (with_prompt messages prompt)) gm
             (temperature self) 4096 = Inr txt \<and>
           snd (gemini_next e self usage messages prompt step_name)
             = update_log e usage (with_prompt messages prompt)
                 (handle_generation_requests self txt step_name) step_name))"
  by (auto simp: gemini_next_def Let_def split: sum.splits)

theorem usage_unchanged_on_provider_failure_witness:
  "snd (gemini_next (sample_env unavailable) (sample_ai ''gemini-1.5-pro'' True) []
          [SystemMessage (PStr ''You write code''), HumanMessage (PStr ''Create a calculator'')]
          None ''generate'') = []
   \<and> snd (gemini_next (sample_env (answering ''print(1)'')) (sample_ai ''gemini-1.5-pro'' True) []
          [SystemMessage (PStr ''You write code''), HumanMessage (PStr ''Create a calculator'')]
          None ''generate'')
       = [\<lparr>step_label = ''generate'', input_tokens = 2, output_tokens = 8,
            total_input_tokens = 2, total_output_tokens = 8\<rparr>]"
proof -
  let ?ms = "[SystemMessage (PStr ''You write code''), HumanMessage (PStr ''Create a calculator'')]"
  let ?gm = "[\<lparr>role = ''user'',
               parts = [PStr ''System: You write code\<newline>\<newline>User: Create a calculator'']\<rparr>]"
  let ?ai = "sample_ai ''gemini-1.5-pro'' True"
  have c: "convert_messages_to_gemini (sample_env p) (with_prompt ?ms None) = Inr ?gm" for p
    by (simp add: with_prompt_def convert_messages_to_gemini_def process_multimodal_content_def
        py_str_def)
  have g: "generate_content (sample_env unavailable) (select_model ?ai (with_prompt ?ms None)) ?gm
             (temperature ?ai) 4096 = Inl ''model unavailable''"
    by (simp add: sample_env_def unavailable_def)
  have fail: "snd (gemini_next (sample_env unavailable) ?ai [] ?ms None ''generate'') = []"
    using usage_unchanged_on_provider_failure
            [of "sample_env unavailable" ?ms None ?ai "[]" "''generate''"] c g
    by blast
  have t: "\<not> should_generate_images ''print(1)''" "\<not> should_generate_videos ''print(1)''"
    by code_simp+
  have ok: "snd (gemini_next (sample_env (answering ''print(1)'')) ?ai [] ?ms None ''generate'')
       = [\<lparr>step_label = ''generate'', input_tokens = 2, output_tokens = 8,
            total_input_tokens = 2, total_output_tokens = 8\<rparr>]"
    using c[of "answering ''print(1)''"] t
    by (simp add: gemini_next_def Let_def sample_env_def answering_def update_log_def
        handle_generation_requests_def handle_generation_requests_with_def with_prompt_def)
  from fail ok show ?thesis by simp
qed

end
